theory Spec2Isabelle
  imports Main "HOL-Library.Word"
begin

section \<open>Errors, durations and options (package server, options file)\<close>

text \<open>
  Go's \<open>error\<close> values. \<open>http.ErrServerClosed\<close> is a sentinel compared by identity, so it
  is a constructor of its own; \<open>Errorf\<close> carries the message of a \<open>fmt.Errorf\<close> made by this
  repository; \<open>ExtError\<close> is any error produced by the operating system or a library.
\<close>

datatype error = ErrServerClosed | Errorf string | ExtError string

text \<open>\<open>time.Duration\<close> is an \<open>int64\<close> count of nanoseconds.\<close>

type_synonym duration = "64 word"

definition Second :: duration where
  "Second = 1000000000"

definition defaultGracefulTimeout :: duration where
  "defaultGracefulTimeout = Second * 5"

record Options =
  EnableProfiling :: bool
  EnableTracing :: bool
  GracefulTimeout :: duration
  EnableReplication :: bool

text \<open>
  \<open>setOptionsDefaults\<close> receives a pointer and mutates it in place; \<open>None\<close> is the nil
  pointer, and the returned value is what the pointer refers to afterwards.
\<close>

definition setOptionsDefaults :: "Options option \<Rightarrow> Options option" where
  "setOptionsDefaults options =
     (case options of
        None \<Rightarrow> None
      | Some opts \<Rightarrow>
          if GracefulTimeout opts = 0
          then Some (opts\<lparr>GracefulTimeout := defaultGracefulTimeout\<rparr>)
          else Some opts)"

section \<open>Observable effects\<close>

text \<open>A bound listener: the network it listens on and its address.\<close>

datatype listener = Listener (lnNetwork: string) (lnAddr: string)

text \<open>
  Every call that leaves the program (listening, serving, closing, logging) is recorded
  as an event, in the order the calls are made. \<open>ServerShutdown None\<close> is a shutdown under
  \<open>context.Background()\<close>, \<open>ServerShutdown (Some d)\<close> one under a timeout of \<open>d\<close>.
\<close>

datatype event =
    ListenPipeCall string
  | NetListenCall string string
  | LogInfo "(string \<times> string list) list" string
  | LogError error string
  | ServerServe listener
  | ServerShutdown "duration option"
  | ServerClose
  | ListenerClose listener

section \<open>Listener factory\<close>

text \<open>
  The operating system's answers to the two listening calls, \<open>winio.ListenPipe\<close> and
  \<open>net.Listen\<close>, and the host name that \<open>production.EndpointToHostname\<close> derives from a
  bound address.
\<close>

record sys =
  ListenPipe :: "string \<Rightarrow> error + listener"
  NetListen :: "string \<Rightarrow> string \<Rightarrow> error + listener"
  EndpointToHostname :: "string \<Rightarrow> string"

text \<open>\<open>strings.HasPrefix\<close>, as the Go library defines it.\<close>

definition HasPrefix :: "string \<Rightarrow> string \<Rightarrow> bool" where
  "HasPrefix s p = (length p \<le> length s \<and> take (length p) s = p)"

text \<open>The Go literal of the pipe prefix denotes two backslash characters.\<close>

definition pipePrefix :: string where
  "pipePrefix = [CHR 0x5C, CHR 0x5C]"

definition parseListener :: "sys \<Rightarrow> string \<Rightarrow> (error + listener) \<times> event list" where
  "parseListener os endpoint =
     (if HasPrefix endpoint pipePrefix
      then (ListenPipe os endpoint, [ListenPipeCall endpoint])
      else (NetListen os ''tcp'' endpoint, [NetListenCall ''tcp'' endpoint]))"

definition NewListener :: "sys \<Rightarrow> string \<Rightarrow> (error + listener) \<times> event list" where
  "NewListener os endpoint = parseListener os endpoint"

section \<open>Handler composition\<close>

text \<open>
  Handlers are kept as terms, so that the nesting of the middlewares can be read off:
  \<open>Base\<close> is an application handler (the server's router among them), \<open>CORS\<close> and
  \<open>HTTPMethodOverrideHandler\<close> are the two wrappers of gorilla/handlers.
\<close>

datatype CORSOption =
    AllowedOrigins "string list"
  | AllowedMethods "string list"
  | AllowCredentials

definition CORSOptions :: "CORSOption list" where
  "CORSOptions =
     [AllowedOrigins [''*''],
      AllowedMethods [''GET'', ''PUT'', ''POST'', ''DELETE'', ''OPTIONS'', ''HEAD'', ''PATCH''],
      AllowCredentials]"

datatype handler =
    Base string
  | CORS "CORSOption list" handler
  | HTTPMethodOverrideHandler handler

definition ConfigureHandler :: "handler \<Rightarrow> handler" where
  "ConfigureHandler handler =
     (let handler = CORS CORSOptions handler;
          handler = HTTPMethodOverrideHandler handler
      in handler)"

text \<open>
  What the two wrappers do with a request, as far as the order of the layers shows:
  each layer reads the request's method when the request reaches it. The method override
  rewrites a \<open>POST\<close> whose \<open>_method\<close> form value (or, failing that, whose
  \<open>X-HTTP-Method-Override\<close> header) is \<open>PUT\<close>, \<open>PATCH\<close> or \<open>DELETE\<close>, and always passes
  the request on. The CORS layer answers an \<open>OPTIONS\<close> request by itself and passes every
  other request on.
\<close>

record request =
  Method :: string
  Header :: "(string \<times> string) list"
  Form :: "(string \<times> string) list"

definition lookupValue :: "(string \<times> string) list \<Rightarrow> string \<Rightarrow> string" where
  "lookupValue kvs k = (case map_of kvs k of None \<Rightarrow> [] | Some v \<Rightarrow> v)"

definition methodOverride :: "request \<Rightarrow> request" where
  "methodOverride r =
     (if Method r = ''POST''
      then (let om = lookupValue (Form r) ''_method'';
                om = (if om = [] then lookupValue (Header r) ''X-HTTP-Method-Override'' else om)
            in if om = ''PUT'' \<or> om = ''PATCH'' \<or> om = ''DELETE''
               then r\<lparr>Method := om\<rparr> else r)
      else r)"

datatype layer = CorsLayer | MethodOverrideLayer

datatype hevent =
    Inspects layer string
  | CorsAnswers
  | Reaches string string

fun ServeHTTP :: "handler \<Rightarrow> request \<Rightarrow> hevent list" where
  "ServeHTTP (Base name) r = [Reaches name (Method r)]"
| "ServeHTTP (HTTPMethodOverrideHandler h) r =
     Inspects MethodOverrideLayer (Method r) # ServeHTTP h (methodOverride r)"
| "ServeHTTP (CORS opts h) r =
     Inspects CorsLayer (Method r) #
       (if Method r = ''OPTIONS'' then [CorsAnswers] else ServeHTTP h r)"

text \<open>The first layer to read the request, if any layer does.\<close>

fun firstInspector :: "hevent list \<Rightarrow> layer option" where
  "firstInspector [] = None"
| "firstInspector (Inspects l m # evs) = Some l"
| "firstInspector (ev # evs) = firstInspector evs"

section \<open>The server\<close>

text \<open>
  A route of the router, as the walk reads it: the results of \<open>GetPathTemplate\<close> and
  \<open>GetMethods\<close>, and the handler bound to the route, if any. The router is the list of its
  routes in the order the walk visits them.
\<close>

record route =
  GetPathTemplate :: "error + string"
  GetMethods :: "error + string list"
  GetHandler :: "string option"

record http_Server =
  Addr :: string
  Handler :: handler
  ReadTimeout :: duration
  WriteTimeout :: duration

record httpServer =
  endpoint :: string
  gracefulTimeout :: duration
  router :: "route list"
  listener :: "listener option"
  serverURL :: string
  runningServer :: "http_Server option"

text \<open>A call either returns or panics (here: a method call on a nil interface).\<close>

datatype 'a outcome = Return 'a | Panic

definition NewServer :: "handler \<Rightarrow> listener option \<Rightarrow> http_Server outcome" where
  "NewServer handler ln =
     (case ln of
        None \<Rightarrow> Panic
      | Some l \<Rightarrow>
          Return \<lparr>Addr = lnAddr l, Handler = ConfigureHandler handler,
                  ReadTimeout = Second * 10, WriteTimeout = Second * 10\<rparr>)"

definition NewBaseServer ::
  "sys \<Rightarrow> string \<Rightarrow> Options \<Rightarrow> (error + httpServer) \<times> event list" where
  "NewBaseServer os ep options =
     (let options = (case setOptionsDefaults (Some options) of Some opts \<Rightarrow> opts | None \<Rightarrow> options)
      in case NewListener os ep of
           (Inl err, evs) \<Rightarrow> (Inl err, evs)
         | (Inr l, evs) \<Rightarrow>
             (Inr \<lparr>endpoint = ep, gracefulTimeout = GracefulTimeout options, router = [],
                   listener = Some l,
                   serverURL = ''http://'' @ EndpointToHostname os (lnAddr l),
                   runningServer = None\<rparr>, evs))"

subsection \<open>Walking the routes\<close>

text \<open>
  The router's \<open>Walk\<close> calls the function on each route in turn and stops at the first
  error the function returns, which it hands back to its caller. The function may
  replace the route it visits.
\<close>

fun Walk ::
  "(route \<Rightarrow> error option \<times> route \<times> event list) \<Rightarrow> route list
     \<Rightarrow> error option \<times> route list \<times> event list" where
  "Walk walkFn [] = (None, [], [])"
| "Walk walkFn (r # rs) =
     (case walkFn r of
        (Some err, r', evs) \<Rightarrow> (Some err, r' # rs, evs)
      | (None, r', evs) \<Rightarrow>
          (case Walk walkFn rs of (res, rs', evs') \<Rightarrow> (res, r' # rs', evs @ evs')))"

text \<open>The function literal that \<open>Run\<close> passes to \<open>Walk\<close>.\<close>

definition walkFn :: "httpServer \<Rightarrow> route \<Rightarrow> error option \<times> route \<times> event list" where
  "walkFn s rt =
     (case GetPathTemplate rt of
        Inl err \<Rightarrow> (Some err, rt, [])
      | Inr t \<Rightarrow>
          (let vals = (case GetMethods rt of Inr m \<Rightarrow> [(''method'', m)] | Inl err \<Rightarrow> []);
               host = serverURL s;
               evs = [LogInfo vals (''Exposed Route: `'' @ host @ t @ ''`'')];
               rt = (case GetHandler rt of
                       Some handler \<Rightarrow> rt\<lparr>GetHandler := Some handler\<rparr>
                     | None \<Rightarrow> rt)
           in (None, rt, evs)))"

subsection \<open>Serving and shutting down\<close>

text \<open>
  What the world answers during one call of \<open>Run\<close> or \<open>Shutdown\<close>: the error with which
  \<open>Serve\<close> comes back (it never comes back with nil), whether the context is cancelled while
  the server serves, and the results of the server's \<open>Shutdown\<close> and \<open>Close\<close> and of the
  listener's \<open>Close\<close>.
\<close>

record env =
  serveResult :: error
  ctxCancelled :: bool
  shutdownResult :: "error option"
  closeResult :: "error option"
  listenerCloseResult :: "error option"

text \<open>
  \<open>RunServer\<close>: the watcher goroutine waits for the context; once it is cancelled the
  watcher shuts the server down under the graceful timeout and closes it, dropping both
  results. Its two calls are placed between the start of \<open>Serve\<close> and its return.
\<close>

definition RunServer ::
  "env \<Rightarrow> http_Server \<Rightarrow> listener \<Rightarrow> duration \<Rightarrow> error option \<times> event list" where
  "RunServer e httpSrv ln timeout =
     (let watcher = (if ctxCancelled e then [ServerShutdown (Some timeout), ServerClose] else []);
          err = Some (serveResult e);
          err = (if err = Some ErrServerClosed then None else err)
      in (err, ServerServe ln # watcher))"

text \<open>The second block of \<open>Shutdown\<close>: closing the listener when the field is not nil.\<close>

definition closeListener ::
  "env \<Rightarrow> httpServer \<Rightarrow> event list \<Rightarrow> error option \<times> httpServer \<times> event list" where
  "closeListener e s evs =
     (case listener s of
        Some ln \<Rightarrow>
          (case listenerCloseResult e of
             Some err \<Rightarrow>
               (Some err, s, evs @ [ListenerClose ln, LogError err ''error during listener close''])
           | None \<Rightarrow> (None, s\<lparr>listener := None\<rparr>, evs @ [ListenerClose ln]))
      | None \<Rightarrow> (None, s, evs))"

definition Shutdown :: "env \<Rightarrow> httpServer \<Rightarrow> error option \<times> httpServer \<times> event list" where
  "Shutdown e s =
     (case runningServer s of
        Some srv \<Rightarrow>
          (case shutdownResult e of
             Some err \<Rightarrow>
               (Some err, s, [ServerShutdown None, LogError err ''error during server shutdown''])
           | None \<Rightarrow>
               (case closeResult e of
                  Some err \<Rightarrow>
                    (Some err, s,
                     [ServerShutdown None, ServerClose, LogError err ''error during server close''])
                | None \<Rightarrow>
                    closeListener e (s\<lparr>listener := None, runningServer := None\<rparr>)
                      [ServerShutdown None, ServerClose]))
      | None \<Rightarrow> closeListener e s [])"

text \<open>
  \<open>Run\<close>. The two deferred calls run in reverse order of their registration: the
  ``Stopped'' line is logged first, then \<open>Shutdown\<close> runs and its result is dropped. The
  result of \<open>Walk\<close> is dropped as well.
\<close>

definition Run ::
  "env \<Rightarrow> httpServer \<Rightarrow> (error option \<times> httpServer \<times> event list) outcome" where
  "Run e s =
     (if listener s = None then Return (Some (Errorf ''listener not initialised''), s, [])
      else if runningServer s \<noteq> None then Return (Some (Errorf ''server already running''), s, [])
      else
        (case NewServer (Base ''router'') (listener s) of
           Panic \<Rightarrow> Panic
         | Return srv \<Rightarrow>
             (case listener s of
                None \<Rightarrow> Panic
              | Some ln \<Rightarrow>
                  (let s = s\<lparr>runningServer := Some srv\<rparr>;
                       starting = [LogInfo [] ''Starting the HTTP server''];
                       (walkErr, routes, walked) = Walk (walkFn s) (router s);
                       s = s\<lparr>router := routes\<rparr>;
                       (err, served) = RunServer e srv ln (gracefulTimeout s);
                       failed = (case err of
                                   Some er \<Rightarrow> [LogError er ''Failed to run the HTTP server'']
                                 | None \<Rightarrow> []);
                       stopped = [LogInfo [] ''Stopped the HTTP server''];
                       (shutdownErr, s, released) = Shutdown e s
                   in Return (err, s, starting @ walked @ served @ failed @ stopped @ released)))))"

text \<open>A sequence of calls on one controller, each with the world's answers for it.\<close>

datatype call = CallRun env | CallShutdown env

fun perform :: "call \<Rightarrow> httpServer \<Rightarrow> (error option \<times> httpServer \<times> event list) outcome" where
  "perform (CallRun e) s = Run e s"
| "perform (CallShutdown e) s = Return (Shutdown e s)"

fun performAll ::
  "call list \<Rightarrow> httpServer \<Rightarrow> (error option \<times> httpServer \<times> event list) outcome list" where
  "performAll [] s = []"
| "performAll (c # cs) s =
     (case perform c s of
        Panic \<Rightarrow> [Panic]
      | Return (err, s', evs) \<Rightarrow> Return (err, s', evs) # performAll cs s')"

section \<open>Signal-driven cancellation (package context)\<close>

text \<open>
  One instance of \<open>WithCancelOnSignal\<close>: the signals asked for, whether \<open>signal.Notify\<close> is
  in force for the channel, the channel's buffer (its capacity is the number of signals)
  and whether it is closed, the \<open>sync.Once\<close>, the watcher goroutine and the child context.
  Two counters record how often \<open>signal.Reset\<close> and \<open>close\<close> have been called.

  The watcher goroutine is \<open>Waiting\<close> in its receive, has \<open>Received\<close> and is about to call
  \<open>cancel\<close>, or is \<open>Finished\<close>.
\<close>

datatype goroutine = Waiting | Received | Finished

record sigctx =
  signals :: "nat list"
  notified :: bool
  chBuf :: "nat list"
  chClosed :: bool
  onceDone :: bool
  watcher :: goroutine
  ctxDone :: bool
  resetCalls :: nat
  closeCalls :: nat

text \<open>A child of a parent context that is already cancelled is cancelled from the start.\<close>

definition WithCancelOnSignal :: "bool \<Rightarrow> nat list \<Rightarrow> sigctx" where
  "WithCancelOnSignal parentDone sigs =
     \<lparr>signals = sigs, notified = True, chBuf = [], chClosed = False, onceDone = False,
      watcher = Waiting, ctxDone = parentDone, resetCalls = 0, closeCalls = 0\<rparr>"

text \<open>
  The runtime relays a signal with a send that does not block: the value goes to the
  waiting receiver, or into the buffer when there is room, or is dropped. A send on a
  closed channel panics. With no signals named, \<open>Notify\<close> asks for all of them.
\<close>

definition deliver :: "nat \<Rightarrow> sigctx \<Rightarrow> sigctx outcome" where
  "deliver sg c =
     (if notified c \<and> (signals c = [] \<or> sg \<in> set (signals c))
      then (if chClosed c then Panic
            else if watcher c = Waiting \<and> chBuf c = [] then Return (c\<lparr>watcher := Received\<rparr>)
            else if length (chBuf c) < length (signals c)
                 then Return (c\<lparr>chBuf := chBuf c @ [sg]\<rparr>)
            else Return c)
      else Return c)"

text \<open>
  One step of the watcher goroutine, \<open>None\<close> when it cannot move: the receive takes a
  buffered value, or the zero value of a closed channel, and blocks otherwise; then
  \<open>cancel\<close> marks the child context done.
\<close>

definition watcherStep :: "sigctx \<Rightarrow> sigctx option" where
  "watcherStep c =
     (case watcher c of
        Waiting \<Rightarrow>
          (if chBuf c \<noteq> [] then Some (c\<lparr>chBuf := tl (chBuf c), watcher := Received\<rparr>)
           else if chClosed c then Some (c\<lparr>watcher := Received\<rparr>)
           else None)
      | Received \<Rightarrow> Some (c\<lparr>ctxDone := True, watcher := Finished\<rparr>)
      | Finished \<Rightarrow> None)"

text \<open>The function given to \<open>once.Do\<close>: \<open>signal.Reset\<close>, then \<open>close\<close>, which panics on a closed channel.\<close>

definition onceBody :: "sigctx \<Rightarrow> sigctx outcome" where
  "onceBody c =
     (let c = c\<lparr>notified := False, resetCalls := Suc (resetCalls c)\<rparr>
      in if chClosed c then Panic
         else Return (c\<lparr>chClosed := True, closeCalls := Suc (closeCalls c)\<rparr>))"

definition onceDo :: "sigctx \<Rightarrow> sigctx outcome" where
  "onceDo c =
     (if onceDone c then Return c
      else (case onceBody (c\<lparr>onceDone := True\<rparr>) of Panic \<Rightarrow> Panic | Return c' \<Rightarrow> Return c'))"

text \<open>
  The receive from \<open>ctx.Done()\<close>: while the context is not done the caller is blocked and
  the watcher runs; \<open>None\<close> means that the watcher cannot move either, so the caller
  waits for ever.
\<close>

function awaitDone :: "sigctx \<Rightarrow> sigctx option" where
  "awaitDone c =
     (if ctxDone c then Some c
      else (case watcherStep c of None \<Rightarrow> None | Some c' \<Rightarrow> awaitDone c'))"
  by pat_completeness auto
termination
  by (relation "measure (\<lambda>c. case watcher c of Waiting \<Rightarrow> 2 | Received \<Rightarrow> 1 | Finished \<Rightarrow> 0)")
     (auto simp: watcherStep_def split: goroutine.splits if_splits)

text \<open>The release function: \<open>None\<close> when it never returns.\<close>

definition release :: "sigctx \<Rightarrow> sigctx outcome option" where
  "release c =
     (case onceDo c of
        Panic \<Rightarrow> Some Panic
      | Return c' \<Rightarrow> (case awaitDone c' of None \<Rightarrow> None | Some c'' \<Rightarrow> Some (Return c'')))"

text \<open>
  What can happen to an instance: a signal arrives, the scheduler lets the watcher move,
  the parent context is cancelled, the release function is called.
\<close>

datatype action = Signal nat | Schedule | CancelParent | Release

fun act :: "action \<Rightarrow> sigctx \<Rightarrow> sigctx outcome option" where
  "act (Signal sg) c = Some (deliver sg c)"
| "act Schedule c = Some (Return (case watcherStep c of None \<Rightarrow> c | Some c' \<Rightarrow> c'))"
| "act CancelParent c = Some (Return (c\<lparr>ctxDone := True\<rparr>))"
| "act Release c = release c"

fun runActions :: "action list \<Rightarrow> sigctx \<Rightarrow> sigctx outcome option" where
  "runActions [] c = Some (Return c)"
| "runActions (a # as) c =
     (case act a c of
        None \<Rightarrow> None
      | Some Panic \<Rightarrow> Some Panic
      | Some (Return c') \<Rightarrow> runActions as c')"

text \<open>
  The states that the actions keep an instance in: the \<open>sync.Once\<close> has run exactly when
  the channel is closed, \<open>Notify\<close> is in force exactly while it is open, each of
  \<open>signal.Reset\<close> and \<open>close\<close> has been called once if the channel is closed and never
  otherwise, and a watcher that has finished has cancelled the context.
\<close>

definition settled :: "sigctx \<Rightarrow> bool" where
  "settled c =
     (onceDone c = chClosed c \<and> notified c = (\<not> chClosed c) \<and>
      closeCalls c = (if chClosed c then 1 else 0) \<and>
      resetCalls c = (if chClosed c then 1 else 0) \<and>
      (watcher c \<noteq> Finished \<or> ctxDone c))"


declare awaitDone.simps [simp del]

section \<open>Sample values\<close>

text \<open>
  A system on which every listening call succeeds, the options of the sample program,
  the server that \<open>NewBaseServer\<close> builds from them on \<open>:8080\<close>, the same server while it
  runs, and two routes: one with a path template and one without.
\<close>

definition sampleSys :: sys where
  "sampleSys =
     \<lparr>ListenPipe = (\<lambda>path. Inr (Listener ''pipe'' path)),
      NetListen = (\<lambda>network address. Inr (Listener network address)),
      EndpointToHostname = (\<lambda>address. ''localhost'' @ address)\<rparr>"

definition sampleOptions :: Options where
  "sampleOptions =
     \<lparr>EnableProfiling = True, EnableTracing = False, GracefulTimeout = 0,
      EnableReplication = False\<rparr>"

definition sampleServer :: httpServer where
  "sampleServer =
     \<lparr>endpoint = '':8080'', gracefulTimeout = defaultGracefulTimeout, router = [],
      listener = Some (Listener ''tcp'' '':8080''), serverURL = ''http://localhost:8080'',
      runningServer = None\<rparr>"

definition sampleRunning :: httpServer where
  "sampleRunning =
     sampleServer\<lparr>runningServer :=
       Some \<lparr>Addr = '':8080'', Handler = ConfigureHandler (Base ''router''),
             ReadTimeout = Second * 10, WriteTimeout = Second * 10\<rparr>\<rparr>"

definition metricsRoute :: route where
  "metricsRoute =
     \<lparr>GetPathTemplate = Inr ''/metrics'', GetMethods = Inr [''GET''],
      GetHandler = Some ''prometheus''\<rparr>"

definition bareRoute :: route where
  "bareRoute =
     \<lparr>GetPathTemplate = Inl (ExtError ''route has no path''),
      GetMethods = Inl (ExtError ''route has no methods''), GetHandler = None\<rparr>"

text \<open>The world in which the context is cancelled and everything closes without error.\<close>

definition calmEnv :: env where
  "calmEnv =
     \<lparr>serveResult = ErrServerClosed, ctxCancelled = True, shutdownResult = None,
      closeResult = None, listenerCloseResult = None\<rparr>"

section \<open>Facts about the model\<close>

lemma sampleServer_constructed:
  "NewBaseServer sampleSys '':8080'' sampleOptions =
     (Inr sampleServer, [NetListenCall ''tcp'' '':8080''])"
  by (simp add: NewBaseServer_def NewListener_def parseListener_def HasPrefix_def pipePrefix_def
      sampleSys_def sampleOptions_def sampleServer_def setOptionsDefaults_def)

lemma Shutdown_success_released:
  "Shutdown e s = (None, s', evs) \<Longrightarrow> listener s' = None \<and> runningServer s' = None"
  by (auto simp: Shutdown_def closeListener_def split: option.splits)

lemma Shutdown_released_noop:
  "listener s = None \<Longrightarrow> runningServer s = None \<Longrightarrow> Shutdown e s = (None, s, [])"
  by (simp add: Shutdown_def closeListener_def)

lemma Run_no_listener:
  "listener s = None \<Longrightarrow> Run e s = Return (Some (Errorf ''listener not initialised''), s, [])"
  by (simp add: Run_def)

lemma Run_already_running:
  "listener s \<noteq> None \<Longrightarrow> runningServer s \<noteq> None \<Longrightarrow>
   Run e s = Return (Some (Errorf ''server already running''), s, [])"
  by (simp add: Run_def)

text \<open>\<open>Run\<close> once both checks have passed, with the tuples taken apart by projections.\<close>

lemma Run_started:
  assumes "listener s = Some ln" "runningServer s = None"
  shows "Run e s =
     (let srv = \<lparr>Addr = lnAddr ln, Handler = ConfigureHandler (Base ''router''),
                  ReadTimeout = Second * 10, WriteTimeout = Second * 10\<rparr>;
          s1 = s\<lparr>runningServer := Some srv\<rparr>;
          w = Walk (walkFn s1) (router s1);
          s2 = s1\<lparr>router := fst (snd w)\<rparr>;
          rs = RunServer e srv ln (gracefulTimeout s2);
          sd = Shutdown e s2
      in Return (fst rs, fst (snd sd),
           [LogInfo [] ''Starting the HTTP server''] @ snd (snd w) @ snd rs @
           (case fst rs of Some er \<Rightarrow> [LogError er ''Failed to run the HTTP server''] | None \<Rightarrow> []) @
           [LogInfo [] ''Stopped the HTTP server''] @ snd (snd sd)))"
  using assms by (simp add: Run_def NewServer_def Let_def split: prod.splits)

lemma Run_never_panics: "Run e s \<noteq> Panic"
proof (cases "listener s")
  case None
  then show ?thesis by (simp add: Run_no_listener)
next
  case (Some ln)
  show ?thesis
  proof (cases "runningServer s")
    case None
    with Some show ?thesis by (simp add: Run_started Let_def)
  next
    case (Some srv)
    with \<open>listener s = Some ln\<close> show ?thesis by (simp add: Run_already_running)
  qed
qed

text \<open>The walk logs the routes before the first one without a path template and stops there.\<close>

lemma Walk_stops:
  assumes "GetPathTemplate r = Inl err" "\<forall>x\<in>set rs. \<exists>t. GetPathTemplate x = Inr t"
  shows "fst (Walk (walkFn s) (rs @ r # rs')) = Some err \<and>
         length (snd (snd (Walk (walkFn s) (rs @ r # rs')))) = length rs \<and>
         drop (length rs) (fst (snd (Walk (walkFn s) (rs @ r # rs')))) = r # rs'"
  using assms(2)
proof (induction rs)
  case Nil
  show ?case using assms(1) by (simp add: walkFn_def)
next
  case (Cons x xs)
  then obtain t where t: "GetPathTemplate x = Inr t" by auto
  from Cons have IH:
    "fst (Walk (walkFn s) (xs @ r # rs')) = Some err \<and>
     length (snd (snd (Walk (walkFn s) (xs @ r # rs')))) = length xs \<and>
     drop (length xs) (fst (snd (Walk (walkFn s) (xs @ r # rs')))) = r # rs'"
    by simp
  have "\<exists>x' ev. walkFn s x = (None, x', [ev])"
    using t by (simp add: walkFn_def Let_def)
  then obtain x' ev where "walkFn s x = (None, x', [ev])" by blast
  with IH show ?case by (cases "Walk (walkFn s) (xs @ r # rs')") simp
qed

text \<open>Once both fields are nil, every call leaves the controller as it is.\<close>

lemma performAll_released:
  assumes "listener s = None" and "runningServer s = None"
  shows "performAll cs s =
     map (\<lambda>c. Return (case c of CallRun e \<Rightarrow> Some (Errorf ''listener not initialised'')
                                 | CallShutdown e \<Rightarrow> None, s, [])) cs"
proof (induction cs)
  case Nil
  show ?case by simp
next
  case (Cons c cs)
  then show ?case
    using assms by (cases c) (simp_all add: Run_no_listener Shutdown_released_noop)
qed

lemma Run_deferred_release:
  assumes "listener s \<noteq> None" "runningServer s = None"
    and "shutdownResult e = None" "closeResult e = None"
    and "Run e s = Return (r, s', evs)"
  shows "listener s' = None \<and> runningServer s' = None"
proof -
  from assms(1) obtain ln where ln: "listener s = Some ln" by auto
  have "Shutdown e t = (None, t\<lparr>listener := None, runningServer := None\<rparr>,
          [ServerShutdown None, ServerClose])" if "runningServer t \<noteq> None" for t
    using that assms(3,4) by (auto simp: Shutdown_def closeListener_def)
  then show ?thesis
    using assms(5) by (auto simp: Run_started [OF ln assms(2)] Let_def)
qed

subsection \<open>The release function\<close>

text \<open>
  Without the \<open>sync.Once\<close> a second close would panic, and a caller that waited without
  closing the channel would wait for ever when no signal arrives.
\<close>

lemma second_close_panics: "chClosed c \<Longrightarrow> onceBody c = Panic"
  by (simp add: onceBody_def)

lemma waiting_without_close_blocks: "awaitDone (WithCancelOnSignal False sigs) = None"
  by (subst awaitDone.simps) (simp add: watcherStep_def WithCancelOnSignal_def)

lemma awaitDone_done: "ctxDone c \<Longrightarrow> awaitDone c = Some c"
  by (subst awaitDone.simps) simp

lemma awaitDone_received:
  "\<not> ctxDone c \<Longrightarrow> watcher c = Received \<Longrightarrow>
   awaitDone c = Some (c\<lparr>ctxDone := True, watcher := Finished\<rparr>)"
  by (subst awaitDone.simps) (simp add: watcherStep_def awaitDone_done)

lemma awaitDone_waiting_closed:
  "\<not> ctxDone c \<Longrightarrow> watcher c = Waiting \<Longrightarrow> chClosed c \<Longrightarrow>
   awaitDone c =
     Some (c\<lparr>chBuf := (if chBuf c \<noteq> [] then tl (chBuf c) else chBuf c),
              ctxDone := True, watcher := Finished\<rparr>)"
  by (subst awaitDone.simps) (simp add: watcherStep_def awaitDone_received)

lemma awaitDone_returns_done: "awaitDone c = Some c' \<Longrightarrow> ctxDone c'"
proof (induction c rule: awaitDone.induct)
  case (1 c)
  show ?case
  proof (cases "ctxDone c")
    case True
    with "1.prems" show ?thesis by (simp add: awaitDone_done)
  next
    case False
    with "1.prems" obtain c1 where "watcherStep c = Some c1" "awaitDone c1 = Some c'"
      by (subst (asm) awaitDone.simps) (auto split: option.splits)
    with False "1.IH" show ?thesis by simp
  qed
qed

lemma release_settled:
  assumes "settled c"
  shows "\<exists>c'. release c = Some (Return c') \<and> settled c' \<and> chClosed c' \<and> ctxDone c'"
proof -
  obtain c1 where c1: "onceDo c = Return c1" "settled c1" "chClosed c1"
    using assms by (auto simp: onceDo_def onceBody_def settled_def Let_def)
  have "\<exists>c'. awaitDone c1 = Some c' \<and> settled c' \<and> chClosed c' \<and> ctxDone c'"
  proof (cases "ctxDone c1")
    case True
    with c1 show ?thesis by (simp add: awaitDone_done)
  next
    case False
    show ?thesis
    proof (cases "watcher c1")
      case Waiting
      with False c1 show ?thesis by (simp add: awaitDone_waiting_closed settled_def)
    next
      case Received
      with False c1 show ?thesis by (simp add: awaitDone_received settled_def)
    next
      case Finished
      with False c1 show ?thesis by (simp add: settled_def)
    qed
  qed
  with c1 show ?thesis by (auto simp: release_def)
qed

lemma act_settled:
  assumes "settled c"
  shows "\<exists>c'. act a c = Some (Return c') \<and> settled c' \<and>
            chClosed c' = (chClosed c \<or> a = Release) \<and>
            (ctxDone c \<or> a = Release \<longrightarrow> ctxDone c')"
proof (cases a)
  case (Signal sg)
  with assms show ?thesis by (auto simp: deliver_def settled_def)
next
  case Schedule
  with assms show ?thesis
    by (auto simp: watcherStep_def settled_def split: goroutine.splits)
next
  case CancelParent
  with assms show ?thesis by (auto simp: settled_def)
next
  case Release
  with release_settled [OF assms] show ?thesis by auto
qed

lemma runActions_settled:
  "settled c \<Longrightarrow>
   \<exists>c'. runActions acts c = Some (Return c') \<and> settled c' \<and>
        chClosed c' = (chClosed c \<or> Release \<in> set acts) \<and>
        (ctxDone c \<or> Release \<in> set acts \<longrightarrow> ctxDone c')"
proof (induction acts arbitrary: c)
  case Nil
  then show ?case by simp
next
  case (Cons a acts)
  from act_settled [OF Cons.prems, of a] obtain c1 where
    c1: "act a c = Some (Return c1)" "settled c1"
        "chClosed c1 = (chClosed c \<or> a = Release)" "ctxDone c \<or> a = Release \<longrightarrow> ctxDone c1"
    by blast
  from Cons.IH [OF c1(2)] obtain c' where
    "runActions acts c1 = Some (Return c')" "settled c'"
    "chClosed c' = (chClosed c1 \<or> Release \<in> set acts)"
    "ctxDone c1 \<or> Release \<in> set acts \<longrightarrow> ctxDone c'"
    by blast
  with c1 show ?case by auto
qed

lemma WithCancelOnSignal_settled: "settled (WithCancelOnSignal parentDone sigs)"
  by (simp add: settled_def WithCancelOnSignal_def)

section \<open>Shutdown of a running server\<close>

text \<open>
  Claim C1, as amended: on a controller whose server is running, \<open>Shutdown\<close> returns at
  the first step that fails. When the server's shutdown fails, the error is logged and
  returned and neither the server's close nor the listener's close is called; when the
  server's close fails, the error is logged and returned and the listener's close is not
  called. In both cases the controller keeps its fields, so that a later \<open>Shutdown\<close>
  starts again. When neither step fails, both fields are cleared and nil is returned.
\<close>

theorem Shutdown_returns_at_first_failure:
  assumes "runningServer s = Some srv"
  shows "(shutdownResult e = Some err \<longrightarrow>
            Shutdown e s =
              (Some err, s, [ServerShutdown None, LogError err ''error during server shutdown'']))
       \<and> (shutdownResult e = None \<and> closeResult e = Some err \<longrightarrow>
            Shutdown e s =
              (Some err, s,
               [ServerShutdown None, ServerClose, LogError err ''error during server close'']))
       \<and> (shutdownResult e = None \<and> closeResult e = None \<longrightarrow>
            Shutdown e s =
              (None, s\<lparr>listener := None, runningServer := None\<rparr>,
               [ServerShutdown None, ServerClose]))"
  using assms by (simp add: Shutdown_def closeListener_def)

theorem Shutdown_returns_at_first_failure_witness:
  "Shutdown (calmEnv\<lparr>shutdownResult := Some (ExtError ''shutdown failed'')\<rparr>) sampleRunning =
     (Some (ExtError ''shutdown failed''), sampleRunning,
      [ServerShutdown None, LogError (ExtError ''shutdown failed'') ''error during server shutdown''])
   \<and> Shutdown (calmEnv\<lparr>closeResult := Some (ExtError ''close failed'')\<rparr>) sampleRunning =
     (Some (ExtError ''close failed''), sampleRunning,
      [ServerShutdown None, ServerClose,
       LogError (ExtError ''close failed'') ''error during server close''])
   \<and> Shutdown calmEnv sampleRunning =
     (None, sampleRunning\<lparr>listener := None, runningServer := None\<rparr>,
      [ServerShutdown None, ServerClose])"
proof -
  obtain srv where srv: "runningServer sampleRunning = Some srv"
    by (simp add: sampleRunning_def)
  note inst = Shutdown_returns_at_first_failure [OF srv]
  have 1: "Shutdown (calmEnv\<lparr>shutdownResult := Some (ExtError ''shutdown failed'')\<rparr>) sampleRunning =
     (Some (ExtError ''shutdown failed''), sampleRunning,
      [ServerShutdown None, LogError (ExtError ''shutdown failed'') ''error during server shutdown''])"
    using inst [of "calmEnv\<lparr>shutdownResult := Some (ExtError ''shutdown failed'')\<rparr>"
        "ExtError ''shutdown failed''"]
    by simp
  have 2: "Shutdown (calmEnv\<lparr>closeResult := Some (ExtError ''close failed'')\<rparr>) sampleRunning =
     (Some (ExtError ''close failed''), sampleRunning,
      [ServerShutdown None, ServerClose,
       LogError (ExtError ''close failed'') ''error during server close''])"
    using inst [of "calmEnv\<lparr>closeResult := Some (ExtError ''close failed'')\<rparr>"
        "ExtError ''close failed''"]
    by (simp add: calmEnv_def)
  have 3: "Shutdown calmEnv sampleRunning =
     (None, sampleRunning\<lparr>listener := None, runningServer := None\<rparr>,
      [ServerShutdown None, ServerClose])"
    using inst [of calmEnv] by (simp add: calmEnv_def)
  from 1 2 3 show ?thesis by blast
qed

text \<open>
  The claim as the specification has it fails: on the running sample server, a failed
  server shutdown is followed by no close of the server and no close of the listener, and a
  failed server close by no close of the listener.
\<close>

theorem failed_shutdown_skips_remaining_closes:
  "Shutdown (calmEnv\<lparr>shutdownResult := Some (ExtError ''shutdown failed'')\<rparr>) sampleRunning =
     (Some (ExtError ''shutdown failed''), sampleRunning,
      [ServerShutdown None, LogError (ExtError ''shutdown failed'') ''error during server shutdown''])
   \<and> listener sampleRunning = Some (Listener ''tcp'' '':8080'')
   \<and> ServerClose \<notin> set (snd (snd (Shutdown
        (calmEnv\<lparr>shutdownResult := Some (ExtError ''shutdown failed'')\<rparr>) sampleRunning)))
   \<and> ListenerClose (Listener ''tcp'' '':8080'') \<notin> set (snd (snd (Shutdown
        (calmEnv\<lparr>shutdownResult := Some (ExtError ''shutdown failed'')\<rparr>) sampleRunning)))
   \<and> ListenerClose (Listener ''tcp'' '':8080'') \<notin> set (snd (snd (Shutdown
        (calmEnv\<lparr>closeResult := Some (ExtError ''close failed'')\<rparr>) sampleRunning)))"
  by (simp add: Shutdown_def sampleRunning_def sampleServer_def calmEnv_def)

section \<open>Route enumeration at startup\<close>

text \<open>
  Claim C2, as amended: a route without a path template ends the enumeration (\<open>Walk\<close>
  returns that route's error, only the routes before it are logged, the routes after it
  are left as they were), but \<open>Run\<close> drops what \<open>Walk\<close> returns: whatever the routes are,
  a controller that passes the two checks serves on its listener and returns what the
  serve loop yields, nil for the server-closed error.
\<close>

theorem Run_serves_whatever_the_walk_returns:
  assumes "listener s = Some ln" and "runningServer s = None"
  shows "(\<exists>s' evs. Run e s =
            Return (if serveResult e = ErrServerClosed then None else Some (serveResult e), s', evs)
          \<and> ServerServe ln \<in> set evs)
       \<and> (\<forall>rs r rs' err.
            GetPathTemplate r = Inl err \<and> (\<forall>x\<in>set rs. \<exists>t. GetPathTemplate x = Inr t) \<longrightarrow>
            fst (Walk (walkFn s) (rs @ r # rs')) = Some err \<and>
            length (snd (snd (Walk (walkFn s) (rs @ r # rs')))) = length rs \<and>
            drop (length rs) (fst (snd (Walk (walkFn s) (rs @ r # rs')))) = r # rs')"
proof -
  have "fst (RunServer e srv ln t) =
          (if serveResult e = ErrServerClosed then None else Some (serveResult e))"
       "ServerServe ln \<in> set (snd (RunServer e srv ln t))" for srv t
    by (simp_all add: RunServer_def Let_def)
  then have "\<exists>s' evs. Run e s =
            Return (if serveResult e = ErrServerClosed then None else Some (serveResult e), s', evs)
          \<and> ServerServe ln \<in> set evs"
    by (simp add: Run_started [OF assms] Let_def)
  then show ?thesis using Walk_stops by blast
qed

theorem Run_serves_whatever_the_walk_returns_witness:
  "listener (sampleServer\<lparr>router := [metricsRoute, bareRoute, metricsRoute]\<rparr>) =
     Some (Listener ''tcp'' '':8080'') \<and>
   runningServer (sampleServer\<lparr>router := [metricsRoute, bareRoute, metricsRoute]\<rparr>) = None \<and>
   GetPathTemplate bareRoute = Inl (ExtError ''route has no path'') \<and>
   GetPathTemplate metricsRoute = Inr ''/metrics'' \<and>
   (\<exists>s' evs. Run calmEnv (sampleServer\<lparr>router := [metricsRoute, bareRoute, metricsRoute]\<rparr>) =
      Return (None, s', evs) \<and> ServerServe (Listener ''tcp'' '':8080'') \<in> set evs) \<and>
   fst (Walk (walkFn (sampleServer\<lparr>router := [metricsRoute, bareRoute, metricsRoute]\<rparr>))
          [metricsRoute, bareRoute, metricsRoute]) = Some (ExtError ''route has no path'')"
proof -
  let ?s = "sampleServer\<lparr>router := [metricsRoute, bareRoute, metricsRoute]\<rparr>"
  have l: "listener ?s = Some (Listener ''tcp'' '':8080'')" by (simp add: sampleServer_def)
  have r: "runningServer ?s = None" by (simp add: sampleServer_def)
  have b: "GetPathTemplate bareRoute = Inl (ExtError ''route has no path'')"
    by (simp add: bareRoute_def)
  have m: "\<forall>x\<in>set [metricsRoute]. \<exists>t. GetPathTemplate x = Inr t"
    by (simp add: metricsRoute_def)
  note inst = Run_serves_whatever_the_walk_returns [OF l r, of calmEnv]
  from inst have 1: "\<exists>s' evs. Run calmEnv ?s = Return (None, s', evs) \<and>
      ServerServe (Listener ''tcp'' '':8080'') \<in> set evs"
    by (simp add: calmEnv_def)
  from inst b m have 2: "fst (Walk (walkFn ?s) ([metricsRoute] @ bareRoute # [metricsRoute])) =
      Some (ExtError ''route has no path'')"
    by blast
  have m': "GetPathTemplate metricsRoute = Inr ''/metrics''"
    by (simp add: metricsRoute_def)
  from l r b m' 1 2 show ?thesis by simp
qed

text \<open>
  The claim as the specification has it fails: with a route without a path template
  registered first, \<open>Run\<close> still serves and returns nil.
\<close>

theorem Run_serves_despite_bare_route:
  "Run calmEnv (sampleServer\<lparr>router := [bareRoute, metricsRoute]\<rparr>) =
     Return (None,
       sampleServer\<lparr>router := [bareRoute, metricsRoute], listener := None\<rparr>,
       [LogInfo [] ''Starting the HTTP server'',
        ServerServe (Listener ''tcp'' '':8080''),
        ServerShutdown (Some defaultGracefulTimeout), ServerClose,
        LogInfo [] ''Stopped the HTTP server'', ServerShutdown None, ServerClose])"
  by (simp add: Run_def NewServer_def RunServer_def Shutdown_def closeListener_def walkFn_def
      sampleServer_def bareRoute_def metricsRoute_def calmEnv_def Let_def)

section \<open>Handler composition: the order of the layers\<close>

text \<open>
  Claim C3, as amended: in the handler that \<open>ConfigureHandler\<close> builds, the method
  override is the outermost layer and the CORS layer is the one inside it. For every
  request the method override reads the request first, and the CORS layer then reads the
  request as the override has left it.
\<close>

theorem method_override_outermost:
  "ConfigureHandler h = HTTPMethodOverrideHandler (CORS CORSOptions h) \<and>
   firstInspector (ServeHTTP (ConfigureHandler h) r) = Some MethodOverrideLayer \<and>
   take 2 (ServeHTTP (ConfigureHandler h) r) =
     [Inspects MethodOverrideLayer (Method r), Inspects CorsLayer (Method (methodOverride r))]"
  by (simp add: ConfigureHandler_def)

text \<open>
  The claim as the specification has it fails: on a \<open>POST\<close> that asks for \<open>DELETE\<close>, the
  first layer to read the request is not the CORS layer, which sees a \<open>DELETE\<close>.
\<close>

theorem cors_not_outermost:
  "firstInspector
     (ServeHTTP (ConfigureHandler (Base ''router''))
        \<lparr>Method = ''POST'', Header = [(''X-HTTP-Method-Override'', ''DELETE'')], Form = []\<rparr>)
     \<noteq> Some CorsLayer \<and>
   ServeHTTP (ConfigureHandler (Base ''router''))
        \<lparr>Method = ''POST'', Header = [(''X-HTTP-Method-Override'', ''DELETE'')], Form = []\<rparr>
     = [Inspects MethodOverrideLayer ''POST'', Inspects CorsLayer ''DELETE'',
        Reaches ''router'' ''DELETE'']"
  by (simp add: ConfigureHandler_def methodOverride_def lookupValue_def Let_def)

section \<open>The default graceful timeout\<close>

text \<open>
  Claim C4, as amended: the default of five seconds replaces a graceful timeout of
  zero only. A server that \<open>NewBaseServer\<close> constructs has the default when the option is
  zero and the option's own value when it is anything else, negative values included.
\<close>

theorem graceful_timeout_default_on_zero:
  "NewBaseServer os ep options = (Inr s, evs) \<Longrightarrow>
   unat defaultGracefulTimeout = 5 * 10 ^ 9 \<and>
   gracefulTimeout s =
     (if GracefulTimeout options = 0 then defaultGracefulTimeout else GracefulTimeout options)"
  by (auto simp: NewBaseServer_def setOptionsDefaults_def defaultGracefulTimeout_def Second_def
      split: prod.splits sum.splits if_splits)

theorem graceful_timeout_default_on_zero_witness:
  "NewBaseServer sampleSys '':8080'' sampleOptions =
     (Inr sampleServer, [NetListenCall ''tcp'' '':8080'']) \<and>
   unat defaultGracefulTimeout = 5 * 10 ^ 9 \<and>
   gracefulTimeout sampleServer = defaultGracefulTimeout"
  using graceful_timeout_default_on_zero [OF sampleServer_constructed] sampleServer_constructed
  by (simp add: sampleOptions_def)

text \<open>
  The claim as the specification has it fails: a timeout of minus one nanosecond is
  negative and is kept.
\<close>

theorem negative_timeout_kept:
  "sint (- 1 :: duration) < 0 \<and>
   map_sum id gracefulTimeout
     (fst (NewBaseServer sampleSys '':8080'' (sampleOptions\<lparr>GracefulTimeout := - 1\<rparr>))) =
     Inr (- 1) \<and>
   (- 1 :: duration) \<noteq> defaultGracefulTimeout"
  by (simp add: NewBaseServer_def NewListener_def parseListener_def HasPrefix_def pipePrefix_def
      sampleSys_def sampleOptions_def setOptionsDefaults_def defaultGracefulTimeout_def Second_def)

section \<open>The result of the serve loop\<close>

text \<open>
  Claim C7: \<open>RunServer\<close> returns nil when the serve loop ends with the server-closed
  error, and returns the serve loop's error in every other case.
\<close>

theorem RunServer_result:
  "fst (RunServer e srv ln t) =
     (if serveResult e = ErrServerClosed then None else Some (serveResult e))"
  by (simp add: RunServer_def)

section \<open>The listener factory\<close>

text \<open>
  Claim C9: an endpoint that begins with two backslashes leads to one call of the
  named-pipe listener on the whole endpoint, whatever follows the two backslashes; every
  other endpoint leads to one call of the TCP listener on the endpoint. The result of that
  one call is the factory's result.
\<close>

theorem listener_factory_dispatch:
  "NewListener os (CHR 0x5C # CHR 0x5C # rest) =
     (ListenPipe os (CHR 0x5C # CHR 0x5C # rest), [ListenPipeCall (CHR 0x5C # CHR 0x5C # rest)]) \<and>
   ((\<forall>rest'. ep \<noteq> CHR 0x5C # CHR 0x5C # rest') \<longrightarrow>
      NewListener os ep = (NetListen os ''tcp'' ep, [NetListenCall ''tcp'' ep]))"
proof -
  have pipe: "HasPrefix (CHR 0x5C # CHR 0x5C # rest) pipePrefix"
    by (simp add: HasPrefix_def pipePrefix_def)
  have tcp: "\<not> HasPrefix ep pipePrefix" if "\<forall>rest'. ep \<noteq> CHR 0x5C # CHR 0x5C # rest'"
  proof
    assume "HasPrefix ep pipePrefix"
    then have "take (Suc (Suc 0)) ep = [CHR 0x5C, CHR 0x5C]"
      by (simp add: HasPrefix_def pipePrefix_def)
    then have "ep = CHR 0x5C # CHR 0x5C # drop (Suc (Suc 0)) ep"
      by (metis append_Cons append_Nil append_take_drop_id)
    with that show False by blast
  qed
  show ?thesis
    using pipe tcp by (simp add: NewListener_def parseListener_def)
qed

theorem listener_factory_dispatch_witness:
  "NewListener sampleSys (CHR 0x5C # CHR 0x5C # ''not an address'') =
     (Inr (Listener ''pipe'' (CHR 0x5C # CHR 0x5C # ''not an address'')),
      [ListenPipeCall (CHR 0x5C # CHR 0x5C # ''not an address'')]) \<and>
   NewListener sampleSys '':8080'' =
     (Inr (Listener ''tcp'' '':8080''), [NetListenCall ''tcp'' '':8080''])"
  using listener_factory_dispatch [of sampleSys "''not an address''" "'':8080''"]
  by (simp add: sampleSys_def)

section \<open>Shutdown of an idle or released controller\<close>

text \<open>
  Claim C5, as amended: \<open>Shutdown\<close> on a controller whose listener and running server
  are both nil returns nil, changes nothing and calls nothing; that is the state every
  successful \<open>Shutdown\<close> leaves, so a further \<open>Shutdown\<close> after a completed one is such a
  call. On a controller that was never run, the listener opened at construction is still
  set: \<open>Shutdown\<close> closes it, and either clears the field and returns nil or, when the
  close fails, logs and returns the error of the close. No nil resource is touched.
\<close>

theorem Shutdown_when_idle_or_released:
  "(listener s = None \<and> runningServer s = None \<longrightarrow> Shutdown e s = (None, s, [])) \<and>
   (Shutdown e s = (None, s', evs) \<longrightarrow> Shutdown e' s' = (None, s', [])) \<and>
   (listener s = Some ln \<and> runningServer s = None \<longrightarrow>
      Shutdown e s =
        (case listenerCloseResult e of
           None \<Rightarrow> (None, s\<lparr>listener := None\<rparr>, [ListenerClose ln])
         | Some err \<Rightarrow>
             (Some err, s, [ListenerClose ln, LogError err ''error during listener close''])))"
proof (intro conjI impI)
  assume "listener s = None \<and> runningServer s = None"
  then show "Shutdown e s = (None, s, [])" by (simp add: Shutdown_released_noop)
next
  assume "Shutdown e s = (None, s', evs)"
  then have "listener s' = None \<and> runningServer s' = None"
    by (rule Shutdown_success_released)
  then show "Shutdown e' s' = (None, s', [])" by (simp add: Shutdown_released_noop)
next
  assume "listener s = Some ln \<and> runningServer s = None"
  then show "Shutdown e s =
        (case listenerCloseResult e of
           None \<Rightarrow> (None, s\<lparr>listener := None\<rparr>, [ListenerClose ln])
         | Some err \<Rightarrow>
             (Some err, s, [ListenerClose ln, LogError err ''error during listener close'']))"
    by (simp add: Shutdown_def closeListener_def split: option.splits)
qed

theorem Shutdown_when_idle_or_released_witness:
  "Shutdown calmEnv (sampleServer\<lparr>listener := None\<rparr>) = (None, sampleServer\<lparr>listener := None\<rparr>, []) \<and>
   Shutdown calmEnv sampleServer =
     (None, sampleServer\<lparr>listener := None\<rparr>, [ListenerClose (Listener ''tcp'' '':8080'')]) \<and>
   Shutdown (calmEnv\<lparr>listenerCloseResult := Some (ExtError ''close failed'')\<rparr>)
     (sampleServer\<lparr>listener := None\<rparr>) = (None, sampleServer\<lparr>listener := None\<rparr>, [])"
proof -
  have idle: "listener sampleServer = Some (Listener ''tcp'' '':8080'') \<and>
      runningServer sampleServer = None"
    by (simp add: sampleServer_def)
  have released: "listener (sampleServer\<lparr>listener := None\<rparr>) = None \<and>
      runningServer (sampleServer\<lparr>listener := None\<rparr>) = None"
    by (simp add: sampleServer_def)
  have 1: "Shutdown calmEnv (sampleServer\<lparr>listener := None\<rparr>) =
      (None, sampleServer\<lparr>listener := None\<rparr>, [])"
    using Shutdown_when_idle_or_released [of "sampleServer\<lparr>listener := None\<rparr>" calmEnv] released
    by blast
  have 2: "Shutdown calmEnv sampleServer =
     (None, sampleServer\<lparr>listener := None\<rparr>, [ListenerClose (Listener ''tcp'' '':8080'')])"
    using Shutdown_when_idle_or_released
      [of sampleServer calmEnv _ _ _ "Listener ''tcp'' '':8080''"] idle
    by (simp add: calmEnv_def)
  have 3: "Shutdown (calmEnv\<lparr>listenerCloseResult := Some (ExtError ''close failed'')\<rparr>)
     (sampleServer\<lparr>listener := None\<rparr>) = (None, sampleServer\<lparr>listener := None\<rparr>, [])"
    using Shutdown_when_idle_or_released [of sampleServer calmEnv "sampleServer\<lparr>listener := None\<rparr>"
        "[ListenerClose (Listener ''tcp'' '':8080'')]"
        "calmEnv\<lparr>listenerCloseResult := Some (ExtError ''close failed'')\<rparr>"] 2
    by blast
  from 1 2 3 show ?thesis by blast
qed

text \<open>
  The claim as the specification has it fails: on the server that \<open>NewBaseServer\<close> has
  just built, \<open>Shutdown\<close> closes the listener and clears the field, and when that close
  fails it returns an error.
\<close>

theorem Shutdown_before_Run_closes_listener:
  "NewBaseServer sampleSys '':8080'' sampleOptions =
     (Inr sampleServer, [NetListenCall ''tcp'' '':8080'']) \<and>
   Shutdown calmEnv sampleServer =
     (None, sampleServer\<lparr>listener := None\<rparr>, [ListenerClose (Listener ''tcp'' '':8080'')]) \<and>
   listener sampleServer = Some (Listener ''tcp'' '':8080'') \<and>
   listener (sampleServer\<lparr>listener := None\<rparr>) = None \<and>
   Shutdown (calmEnv\<lparr>listenerCloseResult := Some (ExtError ''close failed'')\<rparr>) sampleServer =
     (Some (ExtError ''close failed''), sampleServer,
      [ListenerClose (Listener ''tcp'' '':8080''),
       LogError (ExtError ''close failed'') ''error during listener close''])"
  by (simp add: sampleServer_constructed)
     (simp add: Shutdown_def closeListener_def sampleServer_def calmEnv_def)

section \<open>The checks at the start of Run\<close>

text \<open>
  Claim C6: \<open>Run\<close> on a controller without a listener returns the error ``listener not
  initialised'', and \<open>Run\<close> on a controller whose listener is set and whose server is
  already running returns the error ``server already running''; in both cases the
  controller is left as it was and nothing is called. \<open>Run\<close> never panics.
\<close>

theorem Run_precondition_errors:
  "(listener s = None \<longrightarrow>
      Run e s = Return (Some (Errorf ''listener not initialised''), s, [])) \<and>
   (listener s \<noteq> None \<and> runningServer s \<noteq> None \<longrightarrow>
      Run e s = Return (Some (Errorf ''server already running''), s, [])) \<and>
   Run e s \<noteq> Panic"
  by (simp add: Run_no_listener Run_already_running Run_never_panics)

theorem Run_precondition_errors_witness:
  "Run calmEnv (sampleServer\<lparr>listener := None\<rparr>) =
     Return (Some (Errorf ''listener not initialised''), sampleServer\<lparr>listener := None\<rparr>, []) \<and>
   Run calmEnv sampleRunning = Return (Some (Errorf ''server already running''), sampleRunning, [])"
proof -
  have a: "listener (sampleServer\<lparr>listener := None\<rparr>) = None" by simp
  have b: "listener sampleRunning \<noteq> None \<and> runningServer sampleRunning \<noteq> None"
    by (simp add: sampleRunning_def sampleServer_def)
  show ?thesis
    using Run_precondition_errors [of "sampleServer\<lparr>listener := None\<rparr>" calmEnv]
      Run_precondition_errors [of sampleRunning calmEnv] a b
    by blast
qed

section \<open>A controller serves once\<close>

text \<open>
  Claim C10: after a \<open>Shutdown\<close> that returned nil, and after a \<open>Run\<close> that passed its
  checks and whose deferred \<open>Shutdown\<close> met no error, the listener field is nil. From then
  on, in every sequence of calls on the controller, each \<open>Run\<close> returns the error
  ``listener not initialised'' without calling anything, each \<open>Shutdown\<close> returns nil, and
  the controller does not change.
\<close>

theorem controller_is_single_use:
  assumes "Shutdown e s = (None, s', evs) \<or>
           (listener s \<noteq> None \<and> runningServer s = None \<and>
            shutdownResult e = None \<and> closeResult e = None \<and> Run e s = Return (r, s', evs))"
  shows "listener s' = None \<and>
         performAll cs s' =
           map (\<lambda>c. Return (case c of
                               CallRun e' \<Rightarrow> Some (Errorf ''listener not initialised'')
                             | CallShutdown e' \<Rightarrow> None, s', [])) cs"
proof -
  from assms have "listener s' = None \<and> runningServer s' = None"
    using Shutdown_success_released Run_deferred_release by blast
  then show ?thesis by (simp add: performAll_released)
qed

theorem controller_is_single_use_witness:
  "Shutdown calmEnv sampleServer =
     (None, sampleServer\<lparr>listener := None\<rparr>, [ListenerClose (Listener ''tcp'' '':8080'')]) \<and>
   Run calmEnv sampleServer =
     Return (None, sampleServer\<lparr>listener := None\<rparr>,
       [LogInfo [] ''Starting the HTTP server'', ServerServe (Listener ''tcp'' '':8080''),
        ServerShutdown (Some defaultGracefulTimeout), ServerClose,
        LogInfo [] ''Stopped the HTTP server'', ServerShutdown None, ServerClose]) \<and>
   performAll [CallRun calmEnv, CallShutdown calmEnv, CallRun calmEnv]
       (sampleServer\<lparr>listener := None\<rparr>) =
     [Return (Some (Errorf ''listener not initialised''), sampleServer\<lparr>listener := None\<rparr>, []),
      Return (None, sampleServer\<lparr>listener := None\<rparr>, []),
      Return (Some (Errorf ''listener not initialised''), sampleServer\<lparr>listener := None\<rparr>, [])]"
proof -
  let ?released = "sampleServer\<lparr>listener := None\<rparr>"
  let ?cs = "[CallRun calmEnv, CallShutdown calmEnv, CallRun calmEnv]"
  have sd: "Shutdown calmEnv sampleServer =
     (None, ?released, [ListenerClose (Listener ''tcp'' '':8080'')])"
    by (simp add: Shutdown_def closeListener_def sampleServer_def calmEnv_def)
  have rn: "Run calmEnv sampleServer =
     Return (None, ?released,
       [LogInfo [] ''Starting the HTTP server'', ServerServe (Listener ''tcp'' '':8080''),
        ServerShutdown (Some defaultGracefulTimeout), ServerClose,
        LogInfo [] ''Stopped the HTTP server'', ServerShutdown None, ServerClose])"
    by (simp add: Run_def NewServer_def RunServer_def Shutdown_def closeListener_def
        sampleServer_def calmEnv_def Let_def)
  have pre: "listener sampleServer \<noteq> None \<and> runningServer sampleServer = None \<and>
      shutdownResult calmEnv = None \<and> closeResult calmEnv = None"
    by (simp add: sampleServer_def calmEnv_def)
  have after_shutdown: "performAll ?cs ?released =
     [Return (Some (Errorf ''listener not initialised''), ?released, []),
      Return (None, ?released, []),
      Return (Some (Errorf ''listener not initialised''), ?released, [])]"
    using controller_is_single_use [of calmEnv sampleServer ?released
        "[ListenerClose (Listener ''tcp'' '':8080'')]" _ ?cs] sd
    by simp
  have after_run: "listener ?released = None"
    using controller_is_single_use [of calmEnv sampleServer ?released _ None "[]"] rn pre
    by blast
  from sd rn after_shutdown show ?thesis by blast
qed

section \<open>Releasing the signal registration\<close>

text \<open>
  Claim C8: whatever happens to an instance of \<open>WithCancelOnSignal\<close> (signals
  arriving or not, the watcher scheduled or not, the parent cancelled or not, the release
  function called any number of times, one call after the other), no call panics and every
  call returns; \<open>signal.Reset\<close> and \<open>close\<close> have each been called exactly once as soon as
  the release function has been called at all, however often; and a call of the release
  function returns only with the child context done.
\<close>

theorem release_idempotent_and_terminating:
  "(\<exists>c. runActions acts (WithCancelOnSignal parentDone sigs) = Some (Return c) \<and>
        closeCalls c = (if Release \<in> set acts then 1 else 0) \<and>
        resetCalls c = (if Release \<in> set acts then 1 else 0) \<and>
        chClosed c = (Release \<in> set acts) \<and>
        notified c = (Release \<notin> set acts) \<and>
        (Release \<in> set acts \<longrightarrow> ctxDone c)) \<and>
   (release c0 = Some (Return c1) \<longrightarrow> ctxDone c1)"
proof
  from runActions_settled [OF WithCancelOnSignal_settled, of acts parentDone sigs]
  obtain c where c: "runActions acts (WithCancelOnSignal parentDone sigs) = Some (Return c)"
    "settled c" "chClosed c = (Release \<in> set acts)" "Release \<in> set acts \<longrightarrow> ctxDone c"
    by (auto simp: WithCancelOnSignal_def)
  then show "\<exists>c. runActions acts (WithCancelOnSignal parentDone sigs) = Some (Return c) \<and>
        closeCalls c = (if Release \<in> set acts then 1 else 0) \<and>
        resetCalls c = (if Release \<in> set acts then 1 else 0) \<and>
        chClosed c = (Release \<in> set acts) \<and>
        notified c = (Release \<notin> set acts) \<and>
        (Release \<in> set acts \<longrightarrow> ctxDone c)"
    by (auto simp: settled_def)
next
  show "release c0 = Some (Return c1) \<longrightarrow> ctxDone c1"
    by (auto simp: release_def awaitDone_returns_done split: outcome.splits option.splits)
qed

theorem release_idempotent_and_terminating_witness:
  "(\<exists>c. runActions [Release, Release] (WithCancelOnSignal False [2, 15]) = Some (Return c) \<and>
        closeCalls c = 1 \<and> resetCalls c = 1 \<and> chClosed c \<and> \<not> notified c \<and> ctxDone c) \<and>
   release (WithCancelOnSignal False [2, 15]) =
     Some (Return \<lparr>signals = [2, 15], notified = False, chBuf = [], chClosed = True,
                   onceDone = True, watcher = Finished, ctxDone = True, resetCalls = 1,
                   closeCalls = 1\<rparr>)"
proof -
  let ?c1 = "\<lparr>signals = [2, 15], notified = False, chBuf = [], chClosed = True,
              onceDone = True, watcher = Finished, ctxDone = True, resetCalls = 1,
              closeCalls = 1\<rparr>"
  have r: "release (WithCancelOnSignal False [2, 15]) = Some (Return ?c1)"
    by (simp add: release_def onceDo_def onceBody_def WithCancelOnSignal_def
        awaitDone_waiting_closed)
  have d: "ctxDone ?c1"
    using release_idempotent_and_terminating [of _ _ _ "WithCancelOnSignal False [2, 15]" ?c1] r
    by blast
  have "\<exists>c. runActions [Release, Release] (WithCancelOnSignal False [2, 15]) = Some (Return c) \<and>
        closeCalls c = 1 \<and> resetCalls c = 1 \<and> chClosed c \<and> \<not> notified c \<and> ctxDone c"
    using release_idempotent_and_terminating [of "[Release, Release]" False "[2, 15]"]
    by simp
  with r d show ?thesis by blast
qed

end
